theory Spec2Isabelle
  imports Complex_Main
begin

section \<open>Food and FoodManager (food.h, food.cpp)\<close>

text \<open>
  \<^verbatim>\<open>enum class Type { kNormal, kBoost, kCut }\<close> of class Food. An \<^verbatim>\<open>SDL_Point\<close> is a pair
  of C ints \<open>(x, y)\<close>. The C ints of the game (grid coordinates, counters, sizes, scores)
  are modelled as \<open>int\<close>: they stay many orders of magnitude below \<open>2^31\<close> in every
  run of fewer than \<open>2^31\<close> ticks, so no wrap-around is written out.
\<close>

datatype FoodType = kNormal | kBoost | kCut

type_synonym SDL_Point = "int \<times> int"

record Food =
  ftype :: FoodType
  pos :: SDL_Point
  counter :: int

definition MAX_COUNT :: int where
  "MAX_COUNT = 5 * 60"

definition ResetCounter :: "Food \<Rightarrow> Food" where
  "ResetCounter f = f\<lparr>counter := MAX_COUNT\<rparr>"

text \<open>The constructor \<^verbatim>\<open>Food::Food()\<close>: position \<open>(-1, -1)\<close>, type Normal, counter reset.\<close>

definition Food_init :: Food where
  "Food_init = ResetCounter \<lparr>ftype = kNormal, pos = (-1, -1), counter = MAX_COUNT\<rparr>"

text \<open>\<^verbatim>\<open>Food::Count\<close>: \<^verbatim>\<open>counter--; if (counter <= 0) type = Type::kNormal;\<close>\<close>

definition Count :: "Food \<Rightarrow> Food" where
  "Count f =
     (let f1 = f\<lparr>counter := counter f - 1\<rparr>
      in if counter f1 \<le> 0 then f1\<lparr>ftype := kNormal\<rparr> else f1)"

text \<open>\<^verbatim>\<open>Food::Update(x, y, t)\<close>: relocation, new type, counter reset.\<close>

definition Food_Update :: "Food \<Rightarrow> int \<Rightarrow> int \<Rightarrow> FoodType \<Rightarrow> Food" where
  "Food_Update f x y t = ResetCounter (f\<lparr>pos := (x, y), ftype := t\<rparr>)"

text \<open>\<open>n\<close> successive calls of \<^verbatim>\<open>Count()\<close> on one food, nothing in between.\<close>

primrec Count_times :: "nat \<Rightarrow> Food \<Rightarrow> Food" where
  "Count_times 0 f = f"
| "Count_times (Suc n) f = Count_times n (Count f)"

text \<open>
  \<^verbatim>\<open>FoodManager\<close> owns the vector \<^verbatim>\<open>foods\<close>, here a list. The mutex only serialises the
  calls; each call is modelled as one atomic function. The constructor pushes two foods.
\<close>

definition FoodManager_init :: "Food list" where
  "FoodManager_init = [] @ [Food_init] @ [Food_init]"

definition target_food_number :: nat where
  "target_food_number = 2"

text \<open>
  What the C++ leaves undefined (an index or an iterator range outside a vector) is an
  error value of the model. \<open>OutOfDraws\<close> is not an error of the program: the random
  number source is modelled as the finite list of the values that the distributions return,
  and the unbounded retry loop of \<^verbatim>\<open>Game::PlaceFood\<close> that has used up the list without
  finding a free cell has not returned.
\<close>

datatype error = EraseOutOfRange | IndexOutOfRange | OutOfDraws

text \<open>\<^verbatim>\<open>FoodManager::UpdateFood(n, x, y, type)\<close>: \<^verbatim>\<open>foods[n].Update(x, y, type)\<close>.\<close>

definition UpdateFood :: "Food list \<Rightarrow> int \<Rightarrow> int \<Rightarrow> int \<Rightarrow> FoodType \<Rightarrow> error + Food list" where
  "UpdateFood fs n x y t =
     (if 0 \<le> n \<and> nat n < length fs
      then Inr (fs[nat n := Food_Update (fs ! nat n) x y t])
      else Inl IndexOutOfRange)"

text \<open>
  \<^verbatim>\<open>FoodManager::CheckFood(x, y)\<close>: the index of the first food on the cell, or \<open>-1\<close>.
  The loop over \<^verbatim>\<open>i\<close> is the recursion over the rest of the vector from index \<open>i\<close> on.
\<close>

primrec CheckFood_from :: "Food list \<Rightarrow> int \<Rightarrow> int \<Rightarrow> int \<Rightarrow> int" where
  "CheckFood_from [] i x y = -1"
| "CheckFood_from (food # rest) i x y =
     (if fst (pos food) = x \<and> snd (pos food) = y then i
      else CheckFood_from rest (i + 1) x y)"

definition CheckFood :: "Food list \<Rightarrow> int \<Rightarrow> int \<Rightarrow> int" where
  "CheckFood fs x y = CheckFood_from fs 0 x y"

definition GetType :: "Food list \<Rightarrow> int \<Rightarrow> error + FoodType" where
  "GetType fs n =
     (if 0 \<le> n \<and> nat n < length fs then Inr (ftype (fs ! nat n)) else Inl IndexOutOfRange)"

definition GetFoods :: "Food list \<Rightarrow> Food list" where
  "GetFoods fs = fs"

definition FoodManager_Count :: "Food list \<Rightarrow> Food list" where
  "FoodManager_Count fs = map Count fs"

section \<open>Snake (snake.h, snake.cpp)\<close>

text \<open>
  The \<^verbatim>\<open>float\<close> fields \<^verbatim>\<open>head_x\<close>, \<^verbatim>\<open>head_y\<close> and \<^verbatim>\<open>speed\<close> are modelled as exact
  rationals: the rounding of binary floating point is not modelled. The properties below
  about \<^verbatim>\<open>size\<close> and \<^verbatim>\<open>body\<close> hold whatever the head arithmetic yields, and the
  concrete inputs used below are chosen away from cell boundaries.
  \<^verbatim>\<open>static_cast<int>\<close> truncates towards zero, and \<^verbatim>\<open>fmod(a, b)\<close> is
  \<open>a - b * trunc (a / b)\<close>; the grid width and height are positive in the game (32),
  and for a zero width the C++ yields NaN where the model yields \<open>a\<close>.
  The field \<^verbatim>\<open>size\<close> is named \<open>snake_size\<close> here (\<open>size\<close> is a constant of HOL).
\<close>

datatype Direction = kUp | kDown | kLeft | kRight

record Snake =
  direction :: Direction
  speed :: rat
  snake_size :: int
  alive :: bool
  head_x :: rat
  head_y :: rat
  body :: "SDL_Point list"
  growing :: bool
  cutting :: bool
  grid_width :: int
  grid_height :: int

definition MAX_SPEED :: rat where
  "MAX_SPEED = 3 / 10"

definition static_cast_int :: "rat \<Rightarrow> int" where
  "static_cast_int q = (if 0 \<le> q then \<lfloor>q\<rfloor> else \<lceil>q\<rceil>)"

definition fmod :: "rat \<Rightarrow> rat \<Rightarrow> rat" where
  "fmod a b = a - b * of_int (static_cast_int (a / b))"

text \<open>\<^verbatim>\<open>Snake::PushBack(cell)\<close>: \<^verbatim>\<open>body.push_back(cell); size++;\<close>\<close>

definition PushBack :: "Snake \<Rightarrow> SDL_Point \<Rightarrow> Snake" where
  "PushBack s cell = s\<lparr>body := body s @ [cell], snake_size := snake_size s + 1\<rparr>"

text \<open>
  The constructor \<^verbatim>\<open>Snake::Snake(grid_width, grid_height, init_x, init_y, speed)\<close>. The
  member initialisers of snake.h give \<^verbatim>\<open>direction = kUp\<close>, \<^verbatim>\<open>size{1}\<close>, \<^verbatim>\<open>alive{true}\<close>,
  an empty body and both flags false; the constructor body then pushes the two cells
  below the head.
\<close>

definition Snake_init :: "int \<Rightarrow> int \<Rightarrow> int \<Rightarrow> int \<Rightarrow> rat \<Rightarrow> Snake" where
  "Snake_init gw gh init_x init_y spd =
     (let s0 = \<lparr>direction = kUp, speed = spd, snake_size = 1, alive = True,
                head_x = of_int init_x, head_y = of_int init_y, body = [],
                growing = False, cutting = False, grid_width = gw, grid_height = gh\<rparr>;
          p = (static_cast_int (head_x s0), static_cast_int (head_y s0 + 1));
          s1 = PushBack s0 p;
          p2 = (fst p, snd p + 1)
      in PushBack s1 p2)"

definition UpdateHead :: "Snake \<Rightarrow> Snake" where
  "UpdateHead s =
     (let s1 = (case direction s of
                  kUp \<Rightarrow> s\<lparr>head_y := head_y s - speed s\<rparr>
                | kDown \<Rightarrow> s\<lparr>head_y := head_y s + speed s\<rparr>
                | kLeft \<Rightarrow> s\<lparr>head_x := head_x s - speed s\<rparr>
                | kRight \<Rightarrow> s\<lparr>head_x := head_x s + speed s\<rparr>)
      in s1\<lparr>head_x := fmod (head_x s1 + of_int (grid_width s1)) (of_int (grid_width s1)),
            head_y := fmod (head_y s1 + of_int (grid_height s1)) (of_int (grid_height s1))\<rparr>)"

text \<open>
  The last loop of \<^verbatim>\<open>UpdateBody\<close>: every body cell equal to the new head cell clears
  \<^verbatim>\<open>alive\<close>.
\<close>

primrec check_died :: "SDL_Point list \<Rightarrow> SDL_Point \<Rightarrow> Snake \<Rightarrow> Snake" where
  "check_died [] cur s = s"
| "check_died (item # rest) cur s =
     check_died rest cur
       (if fst cur = fst item \<and> snd cur = snd item then s\<lparr>alive := False\<rparr> else s)"

text \<open>
  \<^verbatim>\<open>Snake::UpdateBody(current_head_cell, prev_head_cell)\<close>. After the \<^verbatim>\<open>push_back\<close> the
  vector is not empty, so \<^verbatim>\<open>body.erase(body.begin())\<close> is \<open>tl\<close>. The range erase
  \<^verbatim>\<open>body.erase(body.begin(), body.begin() + cut)\<close> is defined only when
  \<open>0 \<le> cut \<le> body.size()\<close>; outside of that the C++ has undefined behaviour and the
  model returns \<open>EraseOutOfRange\<close>.
\<close>

definition UpdateBody :: "Snake \<Rightarrow> SDL_Point \<Rightarrow> SDL_Point \<Rightarrow> error + Snake" where
  "UpdateBody s current_head_cell prev_head_cell =
     (let s1 = s\<lparr>body := body s @ [prev_head_cell]\<rparr>;
          s2 = (if \<not> growing s1 then s1\<lparr>body := tl (body s1)\<rparr>
                else s1\<lparr>growing := False, snake_size := snake_size s1 + 1\<rparr>)
      in if cutting s2 then
           (let cut = min 3 (snake_size s2)
            in if 0 \<le> cut \<and> nat cut \<le> length (body s2) then
                 (let s3 = s2\<lparr>body := drop (nat cut) (body s2),
                               snake_size := snake_size s2 - cut,
                               cutting := False\<rparr>
                  in Inr (check_died (body s3) current_head_cell s3))
               else Inl EraseOutOfRange)
         else Inr (check_died (body s2) current_head_cell s2))"

definition Update :: "Snake \<Rightarrow> error + Snake" where
  "Update s =
     (let prev_cell = (static_cast_int (head_x s), static_cast_int (head_y s));
          s1 = UpdateHead s;
          current_cell = (static_cast_int (head_x s1), static_cast_int (head_y s1))
      in if fst current_cell \<noteq> fst prev_cell \<or> snd current_cell \<noteq> snd prev_cell
         then UpdateBody s1 current_cell prev_cell
         else Inr s1)"

definition GrowBody :: "Snake \<Rightarrow> Snake" where
  "GrowBody s = s\<lparr>growing := True\<rparr>"

definition CutBody :: "Snake \<Rightarrow> Snake" where
  "CutBody s = s\<lparr>cutting := True\<rparr>"

primrec body_has :: "SDL_Point list \<Rightarrow> int \<Rightarrow> int \<Rightarrow> bool" where
  "body_has [] x y = False"
| "body_has (item # rest) x y =
     (if x = fst item \<and> y = snd item then True else body_has rest x y)"

definition SnakeCell :: "Snake \<Rightarrow> int \<Rightarrow> int \<Rightarrow> bool" where
  "SnakeCell s x y =
     (if x = static_cast_int (head_x s) \<and> y = static_cast_int (head_y s) then True
      else body_has (body s) x y)"

subsection \<open>Navigation of the enemy snake\<close>

text \<open>
  The target selection loop of \<^verbatim>\<open>Snake::Navigate\<close>: \<open>i\<close> is the loop index, \<open>index\<close> and
  \<open>min_distance\<close> are the two variables the loop updates; the result is \<open>index\<close>.
\<close>

primrec nearest_from :: "Food list \<Rightarrow> int \<Rightarrow> int \<Rightarrow> nat \<Rightarrow> nat \<Rightarrow> int \<Rightarrow> nat" where
  "nearest_from [] x y i index min_distance = index"
| "nearest_from (food # rest) x y i index min_distance =
     (let distance = \<bar>fst (pos food) - x\<bar> + \<bar>snd (pos food) - y\<bar>
      in if distance < min_distance
         then nearest_from rest x y (Suc i) i distance
         else nearest_from rest x y (Suc i) index min_distance)"

text \<open>The index that \<^verbatim>\<open>Navigate\<close> targets: \<^verbatim>\<open>auto& food = foods[index]\<close>.\<close>

definition Navigate_target :: "Snake \<Rightarrow> Food list \<Rightarrow> nat" where
  "Navigate_target s fs =
     nearest_from fs (static_cast_int (head_x s)) (static_cast_int (head_y s)) 0 0
       (grid_width s + grid_height s)"

text \<open>The chain of conditionals that picks the candidate heading \<^verbatim>\<open>dir\<close>.\<close>

definition candidate_heading :: "Direction \<Rightarrow> SDL_Point \<Rightarrow> int \<Rightarrow> int \<Rightarrow> Direction" where
  "candidate_heading d fp x y =
     (if (d = kUp \<and> snd fp > y) \<or> (d = kDown \<and> snd fp < y)
        then (if fst fp < x then kLeft else kRight)
      else if (d = kLeft \<and> fst fp > x) \<or> (d = kRight \<and> fst fp < x)
        then (if snd fp < y then kUp else kDown)
      else if fst fp = x \<and> (d = kLeft \<or> d = kRight)
        then (if snd fp > y then kDown else kUp)
      else if snd fp = y \<and> (d = kDown \<or> d = kUp)
        then (if fst fp > x then kRight else kLeft)
      else d)"

text \<open>
  \<^verbatim>\<open>Snake::NextDirection(dir)\<close> is a \<^verbatim>\<open>switch\<close> whose cases, in the order kUp, kRight,
  kDown, kLeft, each assign \<^verbatim>\<open>dir\<close> and have no \<^verbatim>\<open>break\<close>: control falls through to
  every later case. \<open>from_kX dir\<close> is the code from label \<^verbatim>\<open>case kX\<close> to the end of the
  switch.
\<close>

definition from_kLeft :: "Direction \<Rightarrow> Direction" where
  "from_kLeft dir = kRight"

definition from_kDown :: "Direction \<Rightarrow> Direction" where
  "from_kDown dir = from_kLeft kLeft"

definition from_kRight :: "Direction \<Rightarrow> Direction" where
  "from_kRight dir = from_kDown kDown"

definition from_kUp :: "Direction \<Rightarrow> Direction" where
  "from_kUp dir = from_kRight kRight"

definition NextDirection :: "Direction \<Rightarrow> Direction" where
  "NextDirection dir =
     (case dir of
        kUp \<Rightarrow> from_kUp dir
      | kRight \<Rightarrow> from_kRight dir
      | kDown \<Rightarrow> from_kDown dir
      | kLeft \<Rightarrow> from_kLeft dir)"

definition NextPos :: "Direction \<Rightarrow> int \<Rightarrow> int \<Rightarrow> int \<times> int" where
  "NextPos dir next_x next_y =
     (case dir of
        kUp \<Rightarrow> (next_x, next_y - 1)
      | kDown \<Rightarrow> (next_x, next_y + 1)
      | kLeft \<Rightarrow> (next_x - 1, next_y)
      | kRight \<Rightarrow> (next_x + 1, next_y))"

text \<open>
  The collision avoidance loop, \<open>k\<close> probes left: a free next cell leaves the loop
  (\<^verbatim>\<open>break\<close>), an occupied one calls \<^verbatim>\<open>NextDirection(dir)\<close>.
\<close>

primrec avoid :: "nat \<Rightarrow> Snake \<Rightarrow> int \<Rightarrow> int \<Rightarrow> Direction \<Rightarrow> Direction" where
  "avoid 0 s x y dir = dir"
| "avoid (Suc k) s x y dir =
     (let nxt = NextPos dir x y
      in if \<not> SnakeCell s (fst nxt) (snd nxt) then dir
         else avoid k s x y (NextDirection dir))"

text \<open>
  \<^verbatim>\<open>Snake::Navigate(foods)\<close>. \<^verbatim>\<open>foods[index]\<close> on an empty snapshot is outside the vector.
\<close>

definition Navigate :: "Snake \<Rightarrow> Food list \<Rightarrow> error + Snake" where
  "Navigate s fs =
     (let x = static_cast_int (head_x s);
          y = static_cast_int (head_y s);
          index = Navigate_target s fs
      in if index < length fs then
           (let food = fs ! index;
                dir = candidate_heading (direction s) (pos food) x y
            in Inr (s\<lparr>direction := avoid 4 s x y dir\<rparr>))
         else Inl IndexOutOfRange)"

section \<open>Game (game.h, game.cpp) and main\<close>

text \<open>
  The two shared score counters are the list \<open>scores\<close>. The random engine and its three
  distributions are the list of the values they return, in the order of the calls; it is
  threaded through \<^verbatim>\<open>PlaceFood\<close>. The render thread only reads and is not modelled.
\<close>

record Game =
  snake :: Snake
  enemy :: Snake
  foods :: "Food list"
  scores :: "int list"

text \<open>
  \<^verbatim>\<open>Game::PlaceFood(index)\<close>: each round of the \<^verbatim>\<open>while (true)\<close> draws \<open>x\<close> and \<open>y\<close>, and
  on a cell free of both snakes draws \<open>n\<close>, picks the type and relocates the food.
\<close>

fun PlaceFood :: "Game \<Rightarrow> int \<Rightarrow> int list \<Rightarrow> error + (Game \<times> int list)" where
  "PlaceFood g index (x # y # rest) =
     (if \<not> SnakeCell (snake g) x y \<and> \<not> SnakeCell (enemy g) x y then
        (case rest of
           [] \<Rightarrow> Inl OutOfDraws
         | n # rest' \<Rightarrow>
             (let t = (if n \<ge> 0 \<and> n < 15 then kBoost
                       else if n \<ge> 15 \<and> n < 30 then kCut
                       else kNormal)
              in case UpdateFood (foods g) index x y t of
                   Inl e \<Rightarrow> Inl e
                 | Inr fs \<Rightarrow> Inr (g\<lparr>foods := fs\<rparr>, rest')))
      else PlaceFood g index rest)"
| "PlaceFood g index rest = Inl OutOfDraws"

text \<open>The loop \<^verbatim>\<open>for (i = 0; i < target_food_number; i++) PlaceFood(i)\<close>, \<open>k\<close> rounds left.\<close>

primrec PlaceFood_all :: "nat \<Rightarrow> int \<Rightarrow> Game \<Rightarrow> int list \<Rightarrow> error + (Game \<times> int list)" where
  "PlaceFood_all 0 i g rng = Inr (g, rng)"
| "PlaceFood_all (Suc k) i g rng =
     (case PlaceFood g i rng of
        Inl e \<Rightarrow> Inl e
      | Inr (g', rng') \<Rightarrow> PlaceFood_all k (i + 1) g' rng')"

text \<open>
  The constructor \<^verbatim>\<open>Game::Game\<close>. The grid sizes are \<^verbatim>\<open>size_t\<close>; \<^verbatim>\<open>grid_width/2 - 5\<close>
  is passed to an \<^verbatim>\<open>int\<close> parameter, which for sizes below \<open>2^31\<close> is the signed
  difference. The screen sizes only reach the renderer.
\<close>

definition Game_init :: "nat \<Rightarrow> nat \<Rightarrow> int list \<Rightarrow> error + (Game \<times> int list)" where
  "Game_init gw gh rng =
     (let g0 = \<lparr>snake = Snake_init (int gw) (int gh) (int (gw div 2) - 5) (int (gh div 2))
                          (15 / 100),
                enemy = Snake_init (int gw) (int gh) (int (gw div 2) + 5) (int (gh div 2) + 5)
                          (5 / 100),
                foods = FoodManager_init,
                scores = []\<rparr>;
          g1 = g0\<lparr>scores := scores g0 @ [0]\<rparr>;
          g2 = g1\<lparr>scores := scores g1 @ [1]\<rparr>
      in PlaceFood_all target_food_number 0 g2 rng)"

text \<open>\<^verbatim>\<open>*(scores[i]) += d\<close>\<close>

definition add_score :: "int list \<Rightarrow> nat \<Rightarrow> int \<Rightarrow> error + int list" where
  "add_score sc i d = (if i < length sc then Inr (sc[i := sc ! i + d]) else Inl IndexOutOfRange)"

text \<open>
  The effect of a food of type \<open>t\<close> on the snake that eats it, and the points it scores.
  \<^verbatim>\<open>Game::Update\<close> has this block twice, once for \<^verbatim>\<open>snake\<close> with \<^verbatim>\<open>scores[0]\<close> and once
  for \<^verbatim>\<open>enemy\<close> with \<^verbatim>\<open>scores[1]\<close>, the same text otherwise.
\<close>

definition food_effect :: "FoodType \<Rightarrow> Snake \<Rightarrow> Snake \<times> int" where
  "food_effect t s =
     (case t of
        kNormal \<Rightarrow>
          (let s1 = GrowBody s
           in (if speed s1 < MAX_SPEED then s1\<lparr>speed := speed s1 + 5 / 1000\<rparr> else s1, 1))
      | kBoost \<Rightarrow>
          (let s1 = GrowBody s
           in (s1\<lparr>speed := speed s1 + 5 / 100\<rparr>, 3))
      | kCut \<Rightarrow> (CutBody (GrowBody s), 3))"

definition eat_snake :: "int \<Rightarrow> int \<Rightarrow> Game \<Rightarrow> int list \<Rightarrow> error + (Game \<times> int list)" where
  "eat_snake new_x new_y g rng =
     (let index = CheckFood (foods g) new_x new_y
      in if index \<noteq> -1 then
           (case GetType (foods g) index of
              Inl e \<Rightarrow> Inl e
            | Inr t \<Rightarrow>
                (let (s', d) = food_effect t (snake g)
                 in case add_score (scores g) 0 d of
                      Inl e \<Rightarrow> Inl e
                    | Inr sc \<Rightarrow> PlaceFood (g\<lparr>snake := s', scores := sc\<rparr>) index rng))
         else Inr (g, rng))"

definition eat_enemy :: "int \<Rightarrow> int \<Rightarrow> Game \<Rightarrow> int list \<Rightarrow> error + (Game \<times> int list)" where
  "eat_enemy new_x new_y g rng =
     (let index = CheckFood (foods g) new_x new_y
      in if index \<noteq> -1 then
           (case GetType (foods g) index of
              Inl e \<Rightarrow> Inl e
            | Inr t \<Rightarrow>
                (let (s', d) = food_effect t (enemy g)
                 in case add_score (scores g) 1 d of
                      Inl e \<Rightarrow> Inl e
                    | Inr sc \<Rightarrow> PlaceFood (g\<lparr>enemy := s', scores := sc\<rparr>) index rng))
         else Inr (g, rng))"

text \<open>\<^verbatim>\<open>Game::Update()\<close>: the guard on the two \<^verbatim>\<open>alive\<close> flags comes first.\<close>

definition Game_Update :: "Game \<Rightarrow> int list \<Rightarrow> error + (Game \<times> int list)" where
  "Game_Update g rng =
     (if \<not> alive (snake g) \<or> \<not> alive (enemy g) then Inr (g, rng)
      else
        (case Update (snake g) of
           Inl e \<Rightarrow> Inl e
         | Inr s' \<Rightarrow>
             (case Update (enemy g) of
                Inl e \<Rightarrow> Inl e
              | Inr e' \<Rightarrow>
                  (let g1 = g\<lparr>snake := s', enemy := e', foods := FoodManager_Count (foods g)\<rparr>;
                       new_x_snake = static_cast_int (head_x (snake g1));
                       new_y_snake = static_cast_int (head_y (snake g1));
                       new_x_enemy = static_cast_int (head_x (enemy g1));
                       new_y_enemy = static_cast_int (head_y (enemy g1))
                   in case eat_snake new_x_snake new_y_snake g1 rng of
                        Inl e \<Rightarrow> Inl e
                      | Inr (g2, rng2) \<Rightarrow> eat_enemy new_x_enemy new_y_enemy g2 rng2))))"

definition GetScore :: "Game \<Rightarrow> error + int list" where
  "GetScore g =
     (if 1 < length (scores g) then Inr ([] @ [scores g ! 0] @ [scores g ! 1])
      else Inl IndexOutOfRange)"

text \<open>
  Modelled from the spec: \<^verbatim>\<open>Controller::HandleInput(running, snake)\<close>, whose source
  (controller.cpp) is missing. The spec gives its whole contract: one call per tick that
  may flip \<^verbatim>\<open>running\<close> to false or mutate the heading of the player snake. The pending
  input is a parameter.
\<close>

datatype Input = NoInput | Quit | Turn Direction

definition HandleInput :: "Input \<Rightarrow> bool \<Rightarrow> Snake \<Rightarrow> bool \<times> Snake" where
  "HandleInput inp running s =
     (case inp of
        NoInput \<Rightarrow> (running, s)
      | Quit \<Rightarrow> (False, s)
      | Turn d \<Rightarrow> (running, s\<lparr>direction := d\<rparr>))"

text \<open>
  One round of the loop of \<^verbatim>\<open>Game::Run\<close>, the simulation tick: input, enemy navigation on
  a snapshot of the foods, then \<^verbatim>\<open>Update()\<close>. The frame timing is left out.
\<close>

definition Run_tick :: "Input \<Rightarrow> bool \<Rightarrow> Game \<Rightarrow> int list \<Rightarrow> error + (bool \<times> Game \<times> int list)" where
  "Run_tick inp running g rng =
     (let (running', s') = HandleInput inp running (snake g);
          g1 = g\<lparr>snake := s'\<rparr>
      in case Navigate (enemy g1) (GetFoods (foods g1)) of
           Inl e \<Rightarrow> Inl e
         | Inr e' \<Rightarrow>
             (case Game_Update (g1\<lparr>enemy := e'\<rparr>) rng of
                Inl e \<Rightarrow> Inl e
              | Inr (g2, rng2) \<Rightarrow> Inr (running', g2, rng2)))"

text \<open>The comparison of the two final scores in \<^verbatim>\<open>main\<close> and the line it prints.\<close>

definition main_report :: "int list \<Rightarrow> string" where
  "main_report sc =
     (if sc ! 0 > sc ! 1 then ''Congratulation, you have won our god level AI snake!''
      else if sc ! 0 = sc ! 1 then ''You are as good as our AI snake!''
      else ''Sorry, you have lost.'')"

section \<open>Runs of calls, and notions used to state the properties\<close>

text \<open>
  What the rest of the program does to a snake between construction and any later
  moment: it calls \<^verbatim>\<open>Update\<close>, \<^verbatim>\<open>GrowBody\<close>, \<^verbatim>\<open>CutBody\<close> and \<^verbatim>\<open>Navigate\<close>, and it assigns
  the public fields \<^verbatim>\<open>direction\<close> (input handling) and \<^verbatim>\<open>speed\<close> (\<^verbatim>\<open>Game::Update\<close>). A run
  stops at the first call whose behaviour is undefined.
\<close>

datatype SnakeCall =
  CallUpdate | CallGrowBody | CallCutBody | CallNavigate "Food list"
  | SetDirection Direction | SetSpeed rat

fun call :: "SnakeCall \<Rightarrow> Snake \<Rightarrow> error + Snake" where
  "call CallUpdate s = Update s"
| "call CallGrowBody s = Inr (GrowBody s)"
| "call CallCutBody s = Inr (CutBody s)"
| "call (CallNavigate fs) s = Navigate s fs"
| "call (SetDirection d) s = Inr (s\<lparr>direction := d\<rparr>)"
| "call (SetSpeed v) s = Inr (s\<lparr>speed := v\<rparr>)"

fun calls :: "SnakeCall list \<Rightarrow> Snake \<Rightarrow> error + Snake" where
  "calls [] s = Inr s"
| "calls (c # cs) s = (case call c s of Inl e \<Rightarrow> Inl e | Inr s' \<Rightarrow> calls cs s')"

text \<open>The discretized head cell, and whether the next \<^verbatim>\<open>Update\<close> takes the head to a new cell.\<close>

definition head_cell :: "Snake \<Rightarrow> SDL_Point" where
  "head_cell s = (static_cast_int (head_x s), static_cast_int (head_y s))"

definition enters_new_cell :: "Snake \<Rightarrow> bool" where
  "enters_new_cell s = (head_cell (UpdateHead s) \<noteq> head_cell s)"

text \<open>Whether a cell lies on the grid of a snake.\<close>

definition in_grid :: "Snake \<Rightarrow> SDL_Point \<Rightarrow> bool" where
  "in_grid s p =
     (0 \<le> fst p \<and> fst p < grid_width s \<and> 0 \<le> snd p \<and> snd p < grid_height s)"

text \<open>The Manhattan distance from a cell, and from the head cell of a snake, to a food.\<close>

definition distance_to :: "int \<Rightarrow> int \<Rightarrow> Food \<Rightarrow> int" where
  "distance_to x y food = \<bar>fst (pos food) - x\<bar> + \<bar>snd (pos food) - y\<bar>"

definition manhattan :: "Snake \<Rightarrow> Food \<Rightarrow> int" where
  "manhattan s food =
     distance_to (static_cast_int (head_x s)) (static_cast_int (head_y s)) food"

section \<open>Concrete states\<close>

text \<open>
  A snake built by \<^verbatim>\<open>Snake(32, 32, 16, 16, 1.0f)\<close> that has eaten a Cut food
  (\<^verbatim>\<open>GrowBody(); CutBody();\<close>) and moved one cell up: one cell (the head), no body.
\<close>

definition snake_cut :: Snake where
  "snake_cut =
     \<lparr>direction = kUp, speed = 1, snake_size = 1, alive = True, head_x = 16, head_y = 15,
      body = [], growing = False, cutting = False, grid_width = 32, grid_height = 32\<rparr>"

text \<open>The same snake after \<^verbatim>\<open>GrowBody()\<close> and one more cell up: \<^verbatim>\<open>size = 2\<close>, one body cell.\<close>

definition snake_two :: Snake where
  "snake_two =
     \<lparr>direction = kUp, speed = 1, snake_size = 2, alive = True, head_x = 16, head_y = 14,
      body = [(16, 15)], growing = False, cutting = False, grid_width = 32, grid_height = 32\<rparr>"

text \<open>
  A snake built by \<^verbatim>\<open>Snake(32, 32, 16, 16, 0.25f)\<close> after one \<^verbatim>\<open>Update()\<close>: the head is at
  \<open>(16, 15.75)\<close>, inside cell \<open>(16, 15)\<close>.
\<close>

definition snake_mid :: Snake where
  "snake_mid =
     \<lparr>direction = kUp, speed = 1 / 4, snake_size = 3, alive = True, head_x = 16,
      head_y = 63 / 4, body = [(16, 18), (16, 16)], growing = False, cutting = False,
      grid_width = 32, grid_height = 32\<rparr>"

text \<open>
  A snake of four cells that went up, left and down: the head is in cell \<open>(5, 5)\<close>
  heading down, and its oldest body cell \<open>(6, 5)\<close> is the cell to the right of the head.
  The snapshot has a food in the row of the head, five cells to the right.
\<close>

definition snake_curled :: Snake where
  "snake_curled =
     \<lparr>direction = kDown, speed = 1, snake_size = 4, alive = True, head_x = 5, head_y = 5,
      body = [(6, 5), (6, 4), (5, 4)], growing = False, cutting = False,
      grid_width = 32, grid_height = 32\<rparr>"

definition foods_right :: "Food list" where
  "foods_right =
     [\<lparr>ftype = kNormal, pos = (10, 5), counter = 300\<rparr>,
      \<lparr>ftype = kNormal, pos = (20, 20), counter = 300\<rparr>]"

text \<open>A snapshot of two foods, both at Manhattan distance 2 from the cell \<open>(5, 5)\<close>.\<close>

definition foods_tied :: "Food list" where
  "foods_tied =
     [\<lparr>ftype = kBoost, pos = (5, 7), counter = 300\<rparr>,
      \<lparr>ftype = kNormal, pos = (7, 5), counter = 300\<rparr>]"

text \<open>
  The game that \<^verbatim>\<open>Game(640, 640, 32, 32)\<close> constructs when the random draws are
  \<open>21, 25, 50\<close> (first food) and \<open>3, 4, 20\<close> (second food), and the same game with the
  player snake dead.
\<close>

definition game_start :: Game where
  "game_start =
     \<lparr>snake = \<lparr>direction = kUp, speed = 3 / 20, snake_size = 3, alive = True,
                head_x = 11, head_y = 16, body = [(11, 17), (11, 18)],
                growing = False, cutting = False, grid_width = 32, grid_height = 32\<rparr>,
      enemy = \<lparr>direction = kUp, speed = 1 / 20, snake_size = 3, alive = True,
                head_x = 21, head_y = 21, body = [(21, 22), (21, 23)],
                growing = False, cutting = False, grid_width = 32, grid_height = 32\<rparr>,
      foods = [\<lparr>ftype = kNormal, pos = (21, 25), counter = 300\<rparr>,
               \<lparr>ftype = kCut, pos = (3, 4), counter = 300\<rparr>],
      scores = [0, 1]\<rparr>"

definition game_dead :: Game where
  "game_dead = game_start\<lparr>snake := (snake game_start)\<lparr>alive := False\<rparr>\<rparr>"

text \<open>
  A game in play: the player snake has reached the speed \<open>0.3\<close>, its head is at
  \<open>(16, 16.2)\<close> heading up, and a Boost food lies in the cell \<open>(16, 15)\<close> above it.
  \<open>game_boosted\<close> is the game one \<^verbatim>\<open>Game::Update\<close> later, the food relocated by the
  draws \<open>5, 5, 50\<close>.
\<close>

definition game_boost :: Game where
  "game_boost =
     \<lparr>snake = \<lparr>direction = kUp, speed = 3 / 10, snake_size = 3, alive = True,
                head_x = 16, head_y = 81 / 5, body = [(16, 17), (16, 18)],
                growing = False, cutting = False, grid_width = 32, grid_height = 32\<rparr>,
      enemy = \<lparr>direction = kUp, speed = 1 / 20, snake_size = 3, alive = True,
                head_x = 21, head_y = 21, body = [(21, 22), (21, 23)],
                growing = False, cutting = False, grid_width = 32, grid_height = 32\<rparr>,
      foods = [\<lparr>ftype = kBoost, pos = (16, 15), counter = 300\<rparr>,
               \<lparr>ftype = kCut, pos = (3, 4), counter = 300\<rparr>],
      scores = [9, 1]\<rparr>"

definition game_boosted :: Game where
  "game_boosted =
     \<lparr>snake = \<lparr>direction = kUp, speed = 7 / 20, snake_size = 3, alive = True,
                head_x = 16, head_y = 159 / 10, body = [(16, 18), (16, 16)],
                growing = True, cutting = False, grid_width = 32, grid_height = 32\<rparr>,
      enemy = \<lparr>direction = kUp, speed = 1 / 20, snake_size = 3, alive = True,
                head_x = 21, head_y = 419 / 20, body = [(21, 23), (21, 21)],
                growing = False, cutting = False, grid_width = 32, grid_height = 32\<rparr>,
      foods = [\<lparr>ftype = kNormal, pos = (5, 5), counter = 300\<rparr>,
               \<lparr>ftype = kCut, pos = (3, 4), counter = 299\<rparr>],
      scores = [12, 1]\<rparr>"

text \<open>
  The range of the C++ \<^verbatim>\<open>int\<close>. A decrement below \<open>INT_MIN\<close> is undefined in the C++ and
  is not modelled; statements about many \<^verbatim>\<open>Count()\<close> calls are made inside this range.
\<close>

definition INT_MIN :: int where
  "INT_MIN = - (2 ^ 31)"

definition INT_MAX :: int where
  "INT_MAX = 2 ^ 31 - 1"

text \<open>
  A snapshot of three foods seen from the cell \<open>(5, 5)\<close>: the first at distance 30, the
  other two both at distance 2.
\<close>

definition foods_three :: "Food list" where
  "foods_three =
     [\<lparr>ftype = kNormal, pos = (20, 20), counter = 300\<rparr>,
      \<lparr>ftype = kBoost, pos = (7, 5), counter = 300\<rparr>,
      \<lparr>ftype = kNormal, pos = (5, 7), counter = 300\<rparr>]"

section \<open>Properties of the food lifetime\<close>

lemma Count_counter: "counter (Count f) = counter f - 1"
  by (simp add: Count_def Let_def)

lemma Count_pos: "pos (Count f) = pos f"
  by (simp add: Count_def Let_def)

lemma Count_ftype:
  "ftype (Count f) = (if counter f \<le> 1 then kNormal else ftype f)"
  by (simp add: Count_def Let_def)

lemma Count_times_counter: "counter (Count_times n f) = counter f - int n"
  by (induction n arbitrary: f) (simp_all add: Count_counter)

lemma Count_times_pos: "pos (Count_times n f) = pos f"
  by (induction n arbitrary: f) (simp_all add: Count_pos)

lemma Count_times_ftype:
  "ftype (Count_times n f) =
     (if 0 < n \<and> counter f \<le> int n then kNormal else ftype f)"
proof (induction n arbitrary: f)
  case 0
  show ?case by simp
next
  case (Suc n)
  show ?case
    by (simp add: Suc.IH Count_ftype Count_counter)
qed

text \<open>
  Claim C2, as amended. For every food and every number \<open>n\<close> of \<^verbatim>\<open>Count()\<close> calls with no
  \<^verbatim>\<open>Update\<close> between them, as long as the counter stays in the range of \<^verbatim>\<open>int\<close>: the
  counter is exactly \<open>n\<close> below its starting value (it is not clamped and goes on below
  0) and the position is unchanged; while the counter is above 0 the type is unchanged; once a \<^verbatim>\<open>Count()\<close> call has brought the counter to 0
  or below, the type is Normal and stays Normal, at the same position, through every
  further \<^verbatim>\<open>Count()\<close> call in that range; a relocation by \<^verbatim>\<open>Update\<close> sets the new
  position and the new type and resets the counter.
\<close>

theorem Count_lifetime:
  "INT_MIN \<le> counter f - int n \<Longrightarrow> counter f \<le> INT_MAX \<Longrightarrow>
   counter (Count_times n f) = counter f - int n \<and>
   pos (Count_times n f) = pos f \<and>
   (0 < counter (Count_times n f) \<longrightarrow> ftype (Count_times n f) = ftype f) \<and>
   (0 < n \<and> counter (Count_times n f) \<le> 0 \<longrightarrow>
      (\<forall>m. INT_MIN \<le> counter f - int (n + m) \<longrightarrow>
           ftype (Count_times (n + m) f) = kNormal \<and>
           pos (Count_times (n + m) f) = pos f)) \<and>
   pos (Food_Update (Count_times n f) x y t) = (x, y) \<and>
   ftype (Food_Update (Count_times n f) x y t) = t \<and>
   counter (Food_Update (Count_times n f) x y t) = MAX_COUNT"
  by (simp add: Count_times_counter Count_times_pos Count_times_ftype
        Food_Update_def ResetCounter_def)

theorem Count_lifetime_witness:
  "INT_MIN \<le> counter (Food_Update Food_init 3 4 kBoost) - int 307 \<and>
   counter (Food_Update Food_init 3 4 kBoost) \<le> INT_MAX \<and>
   0 < (300::nat) \<and> counter (Count_times 300 (Food_Update Food_init 3 4 kBoost)) \<le> 0 \<and>
   ftype (Count_times (300 + 7) (Food_Update Food_init 3 4 kBoost)) = kNormal \<and>
   pos (Food_Update (Count_times 300 (Food_Update Food_init 3 4 kBoost)) 8 9 kCut) = (8, 9) \<and>
   0 < counter (Count_times 299 (Food_Update Food_init 3 4 kBoost)) \<and>
   ftype (Count_times 299 (Food_Update Food_init 3 4 kBoost)) = kBoost"
proof -
  let ?f = "Food_Update Food_init 3 4 kBoost"
  have c0: "counter ?f = 300"
    by (simp add: Food_Update_def ResetCounter_def MAX_COUNT_def)
  have r: "INT_MIN \<le> counter ?f - int 300" "counter ?f \<le> INT_MAX"
          "INT_MIN \<le> counter ?f - int (300 + 7)"
    by (simp_all add: c0 INT_MIN_def INT_MAX_def)
  note L = Count_lifetime [OF r(1,2), of 8 9 kCut]
  have c: "counter (Count_times 300 ?f) \<le> 0"
    using L c0 by simp
  have "(0::nat) < 300" by simp
  with L c have "\<forall>m. INT_MIN \<le> counter ?f - int (300 + m) \<longrightarrow>
                   ftype (Count_times (300 + m) ?f) = kNormal \<and>
                   pos (Count_times (300 + m) ?f) = pos ?f"
    by blast
  then have "INT_MIN \<le> counter ?f - int (300 + 7) \<longrightarrow>
               ftype (Count_times (300 + 7) ?f) = kNormal \<and>
               pos (Count_times (300 + 7) ?f) = pos ?f" ..
  with r(3) have t: "ftype (Count_times (300 + 7) ?f) = kNormal" by blast
  from L have p: "pos (Food_Update (Count_times 300 ?f) 8 9 kCut) = (8, 9)" by blast
  have r': "INT_MIN \<le> counter ?f - int 299"
    by (simp add: c0 INT_MIN_def)
  note L' = Count_lifetime [OF r' r(2), of 8 9 kCut]
  from L' c0 have c': "0 < counter (Count_times 299 ?f)" by simp
  with L' have "ftype (Count_times 299 ?f) = ftype ?f" by blast
  then have t': "ftype (Count_times 299 ?f) = kBoost"
    by (simp add: Food_Update_def ResetCounter_def)
  from r c t p c' t' show ?thesis by simp
qed

text \<open>
  Claim C2 as stated fails: the counter of a fresh food is \<open>-1\<close> after 301 calls of
  \<^verbatim>\<open>Count()\<close>.
\<close>

theorem Count_negative_counterexample:
  "counter (Count_times 301 Food_init) = -1 \<and> \<not> 0 \<le> counter (Count_times 301 Food_init)"
  by (simp add: Count_times_counter Food_init_def ResetCounter_def MAX_COUNT_def)

text \<open>
  Claim C9. The lifetime is \<open>MAX_COUNT = 300\<close> ticks: a food whose counter is at most
  \<open>MAX_COUNT\<close>, and every food is constructed and relocated with exactly that counter,
  has type Normal after 300 calls of \<^verbatim>\<open>Count()\<close>, whatever its type was; after 299
  calls a relocated food still has the type it was given.
\<close>

theorem Count_300_Normal:
  "(counter f \<le> MAX_COUNT \<longrightarrow> ftype (Count_times 300 f) = kNormal) \<and>
   ftype (Count_times 300 (Food_Update f x y t)) = kNormal \<and>
   ftype (Count_times 299 (Food_Update f x y t)) = t \<and>
   ftype (Count_times 300 Food_init) = kNormal \<and>
   MAX_COUNT = 300"
  by (simp add: Count_times_ftype Food_Update_def Food_init_def ResetCounter_def MAX_COUNT_def)

theorem Count_300_Normal_witness:
  "counter (Food_Update Food_init 3 4 kCut) \<le> MAX_COUNT \<and>
   ftype (Count_times 300 (Food_Update Food_init 3 4 kCut)) = kNormal"
  using Count_300_Normal [of "Food_Update Food_init 3 4 kCut"]
  by (simp add: Food_Update_def ResetCounter_def)

section \<open>Properties of the snake body\<close>

lemma check_died_fields:
  "snake_size (check_died b c s) = snake_size s"
  "body (check_died b c s) = body s"
  "growing (check_died b c s) = growing s"
  "cutting (check_died b c s) = cutting s"
  by (induction b arbitrary: s) simp_all

lemma UpdateHead_fields:
  "snake_size (UpdateHead s) = snake_size s"
  "body (UpdateHead s) = body s"
  "growing (UpdateHead s) = growing s"
  "cutting (UpdateHead s) = cutting s"
  by (simp_all add: UpdateHead_def Let_def split: Direction.split)

lemma UpdateBody_size:
  assumes "UpdateBody s cur prev = Inr s'"
  shows "snake_size s' =
           (if cutting s then max 0 (snake_size s + (if growing s then 1 else 0) - 3)
            else if growing s then snake_size s + 1 else snake_size s)"
  using assms
  by (auto simp: UpdateBody_def Let_def check_died_fields split: if_splits)

lemma UpdateBody_length:
  assumes "UpdateBody s cur prev = Inr s'"
      and "snake_size s = int (length (body s)) + 1"
    shows "snake_size s' = int (length (body s')) + 1"
  using assms
  by (auto simp: UpdateBody_def Let_def check_died_fields split: if_splits)

lemma UpdateBody_returns:
  assumes "\<not> cutting s \<or>
           (snake_size s = int (length (body s)) + 1 \<and>
            3 < snake_size s + (if growing s then 1 else 0))"
  shows "\<exists>s'. UpdateBody s cur prev = Inr s'"
  using assms
  by (auto simp: UpdateBody_def Let_def)

lemma Update_cases:
  "Update s = (if enters_new_cell s
               then UpdateBody (UpdateHead s) (head_cell (UpdateHead s)) (head_cell s)
               else Inr (UpdateHead s))"
  by (auto simp: Update_def enters_new_cell_def head_cell_def Let_def)

lemma Update_length:
  assumes "Update s = Inr s'" and "snake_size s = int (length (body s)) + 1"
  shows "snake_size s' = int (length (body s')) + 1"
proof (cases "enters_new_cell s")
  case True
  with assms(1) have "UpdateBody (UpdateHead s) (head_cell (UpdateHead s)) (head_cell s) = Inr s'"
    by (simp add: Update_cases)
  then show ?thesis
    by (rule UpdateBody_length) (simp add: UpdateHead_fields assms(2))
next
  case False
  with assms show ?thesis
    by (auto simp: Update_cases UpdateHead_fields)
qed

lemma Navigate_fields:
  assumes "Navigate s fs = Inr s'"
  shows "snake_size s' = snake_size s" "body s' = body s"
  using assms by (auto simp: Navigate_def Let_def split: if_splits)

lemma call_length:
  assumes "call c s = Inr s'" and "snake_size s = int (length (body s)) + 1"
  shows "snake_size s' = int (length (body s')) + 1"
  using assms
  by (cases c) (auto simp: Update_length GrowBody_def CutBody_def Navigate_fields)

lemma calls_length:
  assumes "calls cs s = Inr s'" and "snake_size s = int (length (body s)) + 1"
  shows "snake_size s' = int (length (body s')) + 1"
  using assms
proof (induction cs arbitrary: s)
  case Nil
  then show ?case by simp
next
  case (Cons c cs)
  from Cons.prems(1) obtain s1 where c: "call c s = Inr s1" and r: "calls cs s1 = Inr s'"
    by (auto split: sum.splits)
  from c Cons.prems(2) have "snake_size s1 = int (length (body s1)) + 1"
    by (rule call_length)
  with r show ?case by (rule Cons.IH)
qed

lemma Snake_init_length:
  "snake_size (Snake_init gw gh ix iy spd) = 3"
  "length (body (Snake_init gw gh ix iy spd)) = 2"
  by (simp_all add: Snake_init_def PushBack_def Let_def)

text \<open>
  Claim C3, as amended. \<^verbatim>\<open>size\<close> counts the head too: after construction, and after
  every run of calls from there that returns, \<^verbatim>\<open>size\<close> is the length of the body list
  plus one.
\<close>

theorem size_is_body_length_plus_head:
  "snake_size (Snake_init gw gh ix iy spd) = int (length (body (Snake_init gw gh ix iy spd))) + 1 \<and>
   (calls cs (Snake_init gw gh ix iy spd) = Inr s \<longrightarrow>
      snake_size s = int (length (body s)) + 1)"
  using calls_length [of cs "Snake_init gw gh ix iy spd" s]
  by (simp add: Snake_init_length)

lemma UpdateBody_flags:
  assumes "UpdateBody s cur prev = Inr s'"
  shows "\<not> growing s' \<and> \<not> cutting s'"
  using assms
  by (auto simp: UpdateBody_def Let_def check_died_fields split: if_splits)

text \<open>
  Claim C6, as amended. When \<^verbatim>\<open>Update\<close> returns: if the head has entered a new cell,
  the size afterwards is the size before when neither flag is set, one more when only
  \<^verbatim>\<open>growing\<close> is set, and \<open>max 0 (size + (growing ? 1 : 0) - 3)\<close> when \<^verbatim>\<open>cutting\<close> is
  set, and both flags are clear afterwards; if the head is still in the same cell the
  size, the body, the \<^verbatim>\<open>alive\<close> flag and both flags are unchanged: the flags stay pending.
  \<^verbatim>\<open>Update\<close> returns whenever \<^verbatim>\<open>cutting\<close> is not set, or the head stays in its cell, or
  the snake (with \<^verbatim>\<open>size\<close> one more than its body length) has more than three cells
  counting the one it is about to grow.
\<close>

theorem Update_size:
  "(Update s = Inr s' \<longrightarrow>
      snake_size s' =
        (if enters_new_cell s then
           (if cutting s then max 0 (snake_size s + (if growing s then 1 else 0) - 3)
            else if growing s then snake_size s + 1
            else snake_size s)
         else snake_size s) \<and>
      (if enters_new_cell s then \<not> growing s' \<and> \<not> cutting s'
       else growing s' = growing s \<and> cutting s' = cutting s \<and> body s' = body s \<and>
            alive s' = alive s)) \<and>
   (\<not> cutting s \<or> \<not> enters_new_cell s \<or>
      (snake_size s = int (length (body s)) + 1 \<and>
       3 < snake_size s + (if growing s then 1 else 0))
    \<longrightarrow> (\<exists>s1. Update s = Inr s1))"
proof (intro conjI impI)
  assume u: "Update s = Inr s'"
  show "snake_size s' =
        (if enters_new_cell s then
           (if cutting s then max 0 (snake_size s + (if growing s then 1 else 0) - 3)
            else if growing s then snake_size s + 1
            else snake_size s)
         else snake_size s)"
  proof (cases "enters_new_cell s")
    case True
    with u have "UpdateBody (UpdateHead s) (head_cell (UpdateHead s)) (head_cell s) = Inr s'"
      by (simp add: Update_cases)
    from UpdateBody_size [OF this] True show ?thesis
      by (simp add: UpdateHead_fields)
  next
    case False
    with u show ?thesis by (auto simp: Update_cases UpdateHead_fields)
  qed
next
  assume u: "Update s = Inr s'"
  show "if enters_new_cell s then \<not> growing s' \<and> \<not> cutting s'
        else growing s' = growing s \<and> cutting s' = cutting s \<and> body s' = body s \<and>
             alive s' = alive s"
  proof (cases "enters_new_cell s")
    case True
    with u have "UpdateBody (UpdateHead s) (head_cell (UpdateHead s)) (head_cell s) = Inr s'"
      by (simp add: Update_cases)
    from UpdateBody_flags [OF this] True show ?thesis by simp
  next
    case False
    with u have "s' = UpdateHead s" by (simp add: Update_cases)
    moreover have "alive (UpdateHead s) = alive s"
      by (cases "direction s") (simp_all add: UpdateHead_def Let_def)
    ultimately show ?thesis using False by (simp add: UpdateHead_fields)
  qed
next
  assume a: "\<not> cutting s \<or> \<not> enters_new_cell s \<or>
      (snake_size s = int (length (body s)) + 1 \<and>
       3 < snake_size s + (if growing s then 1 else 0))"
  show "\<exists>s1. Update s = Inr s1"
  proof (cases "enters_new_cell s")
    case True
    with a have "\<not> cutting (UpdateHead s) \<or>
           (snake_size (UpdateHead s) = int (length (body (UpdateHead s))) + 1 \<and>
            3 < snake_size (UpdateHead s) + (if growing (UpdateHead s) then 1 else 0))"
      unfolding UpdateHead_fields by blast
    from UpdateBody_returns [OF this] True show ?thesis
      by (simp add: Update_cases)
  next
    case False
    then show ?thesis by (simp add: Update_cases)
  qed
qed

theorem size_is_body_length_plus_head_witness:
  "calls [CallGrowBody, CallCutBody, CallUpdate, CallGrowBody, CallUpdate]
     (Snake_init 32 32 16 16 1) = Inr snake_two \<and>
   snake_size snake_two = int (length (body snake_two)) + 1"
proof -
  have e: "calls [CallGrowBody, CallCutBody, CallUpdate, CallGrowBody, CallUpdate]
             (Snake_init 32 32 16 16 1) = Inr snake_two"
    by code_simp
  with size_is_body_length_plus_head
         [of 32 32 16 16 1 "[CallGrowBody, CallCutBody, CallUpdate, CallGrowBody, CallUpdate]"
            snake_two]
  show ?thesis by blast
qed

text \<open>
  Claim C3 as stated fails: the player snake as \<^verbatim>\<open>Game::Game\<close> constructs it on the
  32 by 32 grid has \<^verbatim>\<open>size = 3\<close> and a body of two cells.
\<close>

theorem size_not_body_length_counterexample:
  "snake_size (Snake_init 32 32 11 16 (15 / 100)) = 3 \<and>
   length (body (Snake_init 32 32 11 16 (15 / 100))) = 2 \<and>
   snake_size (Snake_init 32 32 11 16 (15 / 100)) \<noteq>
     int (length (body (Snake_init 32 32 11 16 (15 / 100))))"
  by (simp add: Snake_init_length)

text \<open>
  Claim C4 fails on the code. The snake \<open>snake_two\<close>, reached from the constructor by
  the calls shown, has \<^verbatim>\<open>size = 2\<close> and one body cell; after \<^verbatim>\<open>CutBody()\<close> the next
  \<^verbatim>\<open>Update\<close> enters a new cell and erases \<open>min(3, 2) = 2\<close> cells from a body of one cell,
  which is outside the bounds of the body list.
\<close>

theorem CutBody_erase_out_of_range:
  "calls [CallGrowBody, CallCutBody, CallUpdate, CallGrowBody, CallUpdate]
     (Snake_init 32 32 16 16 1) = Inr snake_two \<and>
   snake_size snake_two = 2 \<and>
   body snake_two = [(16, 15)] \<and>
   enters_new_cell (CutBody snake_two) \<and>
   Update (CutBody snake_two) = Inl EraseOutOfRange"
  by code_simp

text \<open>In particular the result is not the one the claim describes (size 0, empty body).\<close>

theorem CutBody_erase_out_of_range_witness:
  "enters_new_cell (CutBody snake_two) \<and>
   Update (CutBody snake_two) \<noteq> Inr (snake_two\<lparr>snake_size := 0, body := []\<rparr>)"
  using CutBody_erase_out_of_range by simp

text \<open>
  Claim C6 as stated fails: \<open>snake_mid\<close> has only \<^verbatim>\<open>growing\<close> set, and an \<^verbatim>\<open>Update\<close>
  that moves its head from \<open>(16, 15.75)\<close> to \<open>(16, 15.5)\<close>, inside the same cell, leaves
  the size at 3 and the flag pending.
\<close>

theorem Update_same_cell_counterexample:
  "calls [CallUpdate] (Snake_init 32 32 16 16 (1 / 4)) = Inr snake_mid \<and>
   growing (GrowBody snake_mid) \<and> \<not> cutting (GrowBody snake_mid) \<and>
   Update (GrowBody snake_mid) = Inr (GrowBody (snake_mid\<lparr>head_y := 31 / 2\<rparr>)) \<and>
   snake_size (GrowBody (snake_mid\<lparr>head_y := 31 / 2\<rparr>)) \<noteq> snake_size (GrowBody snake_mid) + 1"
  by code_simp

theorem Update_size_witness:
  "Update (CutBody (GrowBody (Snake_init 32 32 16 16 1))) = Inr snake_cut \<and>
   enters_new_cell (CutBody (GrowBody (Snake_init 32 32 16 16 1))) \<and>
   cutting (CutBody (GrowBody (Snake_init 32 32 16 16 1))) \<and>
   growing (CutBody (GrowBody (Snake_init 32 32 16 16 1))) \<and>
   snake_size (CutBody (GrowBody (Snake_init 32 32 16 16 1))) = 3 \<and>
   length (body (CutBody (GrowBody (Snake_init 32 32 16 16 1)))) = 2 \<and>
   snake_size snake_cut = max 0 (3 + 1 - 3) \<and>
   \<not> growing snake_cut \<and> \<not> cutting snake_cut \<and>
   \<not> enters_new_cell (GrowBody snake_mid) \<and>
   Update (GrowBody snake_mid) = Inr (GrowBody (snake_mid\<lparr>head_y := 31 / 2\<rparr>)) \<and>
   growing (GrowBody (snake_mid\<lparr>head_y := 31 / 2\<rparr>)) \<and>
   snake_size (GrowBody (snake_mid\<lparr>head_y := 31 / 2\<rparr>)) = snake_size (GrowBody snake_mid)"
proof -
  let ?s = "CutBody (GrowBody (Snake_init 32 32 16 16 1))"
  let ?m = "GrowBody snake_mid" and ?m' = "GrowBody (snake_mid\<lparr>head_y := 31 / 2\<rparr>)"
  have e: "Update ?s = Inr snake_cut"
    by code_simp
  have f: "enters_new_cell ?s" "cutting ?s" "growing ?s" "snake_size ?s = 3"
          "length (body ?s) = 2"
    by code_simp+
  have h: "snake_size ?s = int (length (body ?s)) + 1 \<and>
           3 < snake_size ?s + (if growing ?s then 1 else 0)"
    by code_simp
  have em: "Update ?m = Inr ?m'" and nm: "\<not> enters_new_cell ?m" and gm: "growing ?m"
    by code_simp+
  from Update_size [of ?s snake_cut] e f h
  have a: "snake_size snake_cut = max 0 (3 + 1 - 3) \<and> \<not> growing snake_cut \<and> \<not> cutting snake_cut"
    by simp
  from Update_size [of ?m ?m'] em nm gm
  have b: "growing ?m' \<and> snake_size ?m' = snake_size ?m"
    by simp
  from a b e f em nm show ?thesis by simp
qed

section \<open>Properties of the navigation\<close>

text \<open>
  Claim C7 fails on the code. Without a \<^verbatim>\<open>break\<close> every case of \<^verbatim>\<open>NextDirection\<close> runs
  on to the last assignment, so the result is kRight from every heading: one call does not
  take kRight to kDown, nor kDown to kLeft. The snake \<open>snake_curled\<close>, reached from the
  constructor by the calls shown, gets the candidate heading kRight towards the food at
  \<open>(10, 5)\<close>; the cell \<open>(6, 5)\<close> to its right is its own body, each of the four probes
  finds it occupied and "rotates" kRight to kRight, and \<^verbatim>\<open>Navigate\<close> ends heading kRight
  into the body although the cell below, \<open>(5, 6)\<close>, is free.
\<close>

theorem NextDirection_no_rotation:
  "NextDirection kRight = kRight \<and> NextDirection kDown = kRight \<and>
   NextDirection kUp = kRight \<and> NextDirection kLeft = kRight \<and>
   calls [CallGrowBody, CallUpdate, CallUpdate, SetDirection kLeft, CallUpdate,
          SetDirection kDown, CallUpdate] (Snake_init 32 32 6 6 1) = Inr snake_curled \<and>
   candidate_heading kDown (10, 5) 5 5 = kRight \<and>
   SnakeCell snake_curled 6 5 \<and>
   \<not> SnakeCell snake_curled 5 6 \<and>
   Navigate snake_curled foods_right = Inr (snake_curled\<lparr>direction := kRight\<rparr>)"
  by code_simp

text \<open>The results differ from one step in the order Up, Right, Down, Left.\<close>

theorem NextDirection_no_rotation_witness:
  "NextDirection kRight \<noteq> kDown \<and> NextDirection kDown \<noteq> kLeft \<and>
   Navigate snake_curled foods_right \<noteq> Inr (snake_curled\<lparr>direction := kDown\<rparr>)"
proof -
  note N = NextDirection_no_rotation
  have d: "snake_curled\<lparr>direction := kRight\<rparr> \<noteq> snake_curled\<lparr>direction := kDown\<rparr>"
    by (simp add: snake_curled_def)
  from N have "Navigate snake_curled foods_right = Inr (snake_curled\<lparr>direction := kRight\<rparr>)"
    by blast
  with d have "Navigate snake_curled foods_right \<noteq> Inr (snake_curled\<lparr>direction := kDown\<rparr>)"
    by simp
  moreover from N have "NextDirection kRight \<noteq> kDown \<and> NextDirection kDown \<noteq> kLeft"
    by simp
  ultimately show ?thesis by blast
qed

lemma nearest_from_spec:
  "(nearest_from fs x y i idx md = idx \<and> (\<forall>k<length fs. md \<le> distance_to x y (fs ! k))) \<or>
   (\<exists>k<length fs. nearest_from fs x y i idx md = i + k \<and> distance_to x y (fs ! k) < md \<and>
        (\<forall>k'<k. distance_to x y (fs ! k) < distance_to x y (fs ! k')) \<and>
        (\<forall>k'<length fs. distance_to x y (fs ! k) \<le> distance_to x y (fs ! k')))"
proof (induction fs arbitrary: i idx md)
  case Nil
  then show ?case by simp
next
  case (Cons f rest)
  show ?case
  proof (cases "distance_to x y f < md")
    case True
    then have step: "nearest_from (f # rest) x y i idx md = nearest_from rest x y (Suc i) i (distance_to x y f)"
      by (simp add: distance_to_def Let_def)
    from Cons.IH [of "Suc i" i "distance_to x y f"] show ?thesis
    proof
      assume a: "nearest_from rest x y (Suc i) i (distance_to x y f) = i \<and>
                 (\<forall>k<length rest. distance_to x y f \<le> distance_to x y (rest ! k))"
      have "\<forall>k'<length (f # rest). distance_to x y ((f # rest) ! 0) \<le> distance_to x y ((f # rest) ! k')"
      proof (intro allI impI)
        fix k' assume "k' < length (f # rest)"
        with a show "distance_to x y ((f # rest) ! 0) \<le> distance_to x y ((f # rest) ! k')"
          by (cases k') auto
      qed
      with a step True have
        "0 < length (f # rest) \<and> nearest_from (f # rest) x y i idx md = i + 0 \<and>
         distance_to x y ((f # rest) ! 0) < md \<and>
         (\<forall>k'<0. distance_to x y ((f # rest) ! 0) < distance_to x y ((f # rest) ! k')) \<and>
         (\<forall>k'<length (f # rest). distance_to x y ((f # rest) ! 0) \<le> distance_to x y ((f # rest) ! k'))"
        by simp
      then show ?thesis by blast
    next
      assume "\<exists>k<length rest. nearest_from rest x y (Suc i) i (distance_to x y f) = Suc i + k \<and>
                distance_to x y (rest ! k) < distance_to x y f \<and>
                (\<forall>k'<k. distance_to x y (rest ! k) < distance_to x y (rest ! k')) \<and>
                (\<forall>k'<length rest. distance_to x y (rest ! k) \<le> distance_to x y (rest ! k'))"
      then obtain k where k: "k < length rest"
        "nearest_from rest x y (Suc i) i (distance_to x y f) = Suc i + k"
        "distance_to x y (rest ! k) < distance_to x y f"
        "\<forall>k'<k. distance_to x y (rest ! k) < distance_to x y (rest ! k')"
        "\<forall>k'<length rest. distance_to x y (rest ! k) \<le> distance_to x y (rest ! k')"
        by blast
      have b1: "\<forall>k'<Suc k. distance_to x y ((f # rest) ! Suc k) < distance_to x y ((f # rest) ! k')"
      proof (intro allI impI)
        fix k' assume "k' < Suc k"
        with k(3,4) show "distance_to x y ((f # rest) ! Suc k) < distance_to x y ((f # rest) ! k')"
          by (cases k') auto
      qed
      have b2: "\<forall>k'<length (f # rest). distance_to x y ((f # rest) ! Suc k) \<le> distance_to x y ((f # rest) ! k')"
      proof (intro allI impI)
        fix k' assume "k' < length (f # rest)"
        with k(3,5) show "distance_to x y ((f # rest) ! Suc k) \<le> distance_to x y ((f # rest) ! k')"
          by (cases k') auto
      qed
      from k(1,2,3) True step have
        "Suc k < length (f # rest) \<and> nearest_from (f # rest) x y i idx md = i + Suc k \<and>
         distance_to x y ((f # rest) ! Suc k) < md"
        by simp
      with b1 b2 show ?thesis by blast
    qed
  next
    case False
    then have step: "nearest_from (f # rest) x y i idx md = nearest_from rest x y (Suc i) idx md"
      by (simp add: distance_to_def Let_def)
    from Cons.IH [of "Suc i" idx md] show ?thesis
    proof
      assume a: "nearest_from rest x y (Suc i) idx md = idx \<and>
                 (\<forall>k<length rest. md \<le> distance_to x y (rest ! k))"
      have "\<forall>k<length (f # rest). md \<le> distance_to x y ((f # rest) ! k)"
      proof (intro allI impI)
        fix k assume "k < length (f # rest)"
        with a False show "md \<le> distance_to x y ((f # rest) ! k)"
          by (cases k) auto
      qed
      with a step show ?thesis by simp
    next
      assume "\<exists>k<length rest. nearest_from rest x y (Suc i) idx md = Suc i + k \<and>
                distance_to x y (rest ! k) < md \<and>
                (\<forall>k'<k. distance_to x y (rest ! k) < distance_to x y (rest ! k')) \<and>
                (\<forall>k'<length rest. distance_to x y (rest ! k) \<le> distance_to x y (rest ! k'))"
      then obtain k where k: "k < length rest"
        "nearest_from rest x y (Suc i) idx md = Suc i + k"
        "distance_to x y (rest ! k) < md"
        "\<forall>k'<k. distance_to x y (rest ! k) < distance_to x y (rest ! k')"
        "\<forall>k'<length rest. distance_to x y (rest ! k) \<le> distance_to x y (rest ! k')"
        by blast
      have b1: "\<forall>k'<Suc k. distance_to x y ((f # rest) ! Suc k) < distance_to x y ((f # rest) ! k')"
      proof (intro allI impI)
        fix k' assume "k' < Suc k"
        with k(3,4) False show "distance_to x y ((f # rest) ! Suc k) < distance_to x y ((f # rest) ! k')"
          by (cases k') auto
      qed
      have b2: "\<forall>k'<length (f # rest). distance_to x y ((f # rest) ! Suc k) \<le> distance_to x y ((f # rest) ! k')"
      proof (intro allI impI)
        fix k' assume "k' < length (f # rest)"
        with k(3,5) False show "distance_to x y ((f # rest) ! Suc k) \<le> distance_to x y ((f # rest) ! k')"
          by (cases k') auto
      qed
      from k(1,2,3) step have
        "Suc k < length (f # rest) \<and> nearest_from (f # rest) x y i idx md = i + Suc k \<and>
         distance_to x y ((f # rest) ! Suc k) < md"
        by simp
      with b1 b2 show ?thesis by blast
    qed
  qed
qed


lemma Navigate_target_first:
  assumes "j < length fs"
      and "manhattan s (fs ! j) = manhattan s (fs ! Navigate_target s fs)"
    shows "Navigate_target s fs \<le> j"
proof -
  let ?x = "static_cast_int (head_x s)" and ?y = "static_cast_int (head_y s)"
  let ?md = "grid_width s + grid_height s"
  have t: "Navigate_target s fs = nearest_from fs ?x ?y 0 0 ?md"
    by (simp add: Navigate_target_def)
  from nearest_from_spec [of fs ?x ?y 0 0 ?md] show ?thesis
  proof
    assume "nearest_from fs ?x ?y 0 0 ?md = 0 \<and> (\<forall>k<length fs. ?md \<le> distance_to ?x ?y (fs ! k))"
    with t show ?thesis by simp
  next
    assume "\<exists>k<length fs. nearest_from fs ?x ?y 0 0 ?md = 0 + k \<and>
              distance_to ?x ?y (fs ! k) < ?md \<and>
              (\<forall>k'<k. distance_to ?x ?y (fs ! k) < distance_to ?x ?y (fs ! k')) \<and>
              (\<forall>k'<length fs. distance_to ?x ?y (fs ! k) \<le> distance_to ?x ?y (fs ! k'))"
    then obtain k where k: "nearest_from fs ?x ?y 0 0 ?md = 0 + k"
        "\<forall>k'<k. distance_to ?x ?y (fs ! k) < distance_to ?x ?y (fs ! k')"
      by blast
    from k(1) t have tk: "Navigate_target s fs = k" by simp
    show ?thesis
    proof (rule ccontr)
      assume "\<not> Navigate_target s fs \<le> j"
      with tk have "j < k" by simp
      with k(2) have "distance_to ?x ?y (fs ! k) < distance_to ?x ?y (fs ! j)" by blast
      with assms(2) tk show False by (simp add: manhattan_def)
    qed
  qed
qed

lemma Navigate_target_in_range:
  assumes "fs \<noteq> []"
  shows "Navigate_target s fs < length fs"
proof -
  let ?x = "static_cast_int (head_x s)" and ?y = "static_cast_int (head_y s)"
  let ?md = "grid_width s + grid_height s"
  from nearest_from_spec [of fs ?x ?y 0 0 ?md] assms show ?thesis
    by (auto simp: Navigate_target_def)
qed

lemma Navigate_target_cases:
  "(Navigate_target s fs = 0 \<and>
      (\<forall>k<length fs. grid_width s + grid_height s \<le> manhattan s (fs ! k))) \<or>
   (Navigate_target s fs < length fs \<and>
      manhattan s (fs ! Navigate_target s fs) < grid_width s + grid_height s \<and>
      (\<forall>k'<Navigate_target s fs.
          manhattan s (fs ! Navigate_target s fs) < manhattan s (fs ! k')) \<and>
      (\<forall>k'<length fs. manhattan s (fs ! Navigate_target s fs) \<le> manhattan s (fs ! k')))"
  using nearest_from_spec
          [of fs "static_cast_int (head_x s)" "static_cast_int (head_y s)" 0 0
              "grid_width s + grid_height s"]
  unfolding Navigate_target_def manhattan_def
  by auto

lemma in_grid_near:
  assumes "in_grid s (head_cell s)" and "in_grid s (pos food)"
  shows "manhattan s food < grid_width s + grid_height s"
  using assms
  by (auto simp: in_grid_def head_cell_def manhattan_def distance_to_def)

text \<open>
  Claim C8. With two foods at equal Manhattan distance from the head cell in the snapshot,
  \<^verbatim>\<open>Navigate\<close> targets index 0; in any snapshot no food of lower index is at the same
  distance as the target. Whenever some food is nearer than \<open>grid_width + grid_height\<close>,
  as every food on the grid is for a head on the grid, the target is a food of minimum
  distance and every food before it is strictly farther: ties go to the first index.
  When no food is that near the target is index 0. The heading that \<^verbatim>\<open>Navigate\<close> sets is
  computed from the target.
\<close>

theorem Navigate_target_lowest_index:
  "(manhattan s f0 = manhattan s f1 \<longrightarrow> Navigate_target s [f0, f1] = 0) \<and>
   (j < length fs \<and> manhattan s (fs ! j) = manhattan s (fs ! Navigate_target s fs)
      \<longrightarrow> Navigate_target s fs \<le> j) \<and>
   ((\<exists>k<length fs. manhattan s (fs ! k) < grid_width s + grid_height s) \<longrightarrow>
      Navigate_target s fs < length fs \<and>
      (\<forall>k<length fs. manhattan s (fs ! Navigate_target s fs) \<le> manhattan s (fs ! k)) \<and>
      (\<forall>k<Navigate_target s fs.
          manhattan s (fs ! Navigate_target s fs) < manhattan s (fs ! k))) \<and>
   ((\<forall>k<length fs. grid_width s + grid_height s \<le> manhattan s (fs ! k)) \<longrightarrow>
      Navigate_target s fs = 0) \<and>
   (in_grid s (head_cell s) \<and> j < length fs \<and> in_grid s (pos (fs ! j)) \<longrightarrow>
      manhattan s (fs ! j) < grid_width s + grid_height s) \<and>
   (fs \<noteq> [] \<longrightarrow>
      Navigate_target s fs < length fs \<and>
      Navigate s fs =
        Inr (s\<lparr>direction :=
               avoid 4 s (static_cast_int (head_x s)) (static_cast_int (head_y s))
                 (candidate_heading (direction s) (pos (fs ! Navigate_target s fs))
                    (static_cast_int (head_x s)) (static_cast_int (head_y s)))\<rparr>))"
proof (intro conjI impI)
  assume e: "manhattan s f0 = manhattan s f1"
  have r: "Navigate_target s [f0, f1] < length [f0, f1]"
    by (rule Navigate_target_in_range) simp
  show "Navigate_target s [f0, f1] = 0"
  proof (rule ccontr)
    assume n: "Navigate_target s [f0, f1] \<noteq> 0"
    with r have one: "Navigate_target s [f0, f1] = 1" by simp
    have "Navigate_target s [f0, f1] \<le> 0"
      by (rule Navigate_target_first) (simp_all add: one e)
    with n show False by simp
  qed
next
  assume "j < length fs \<and> manhattan s (fs ! j) = manhattan s (fs ! Navigate_target s fs)"
  then show "Navigate_target s fs \<le> j"
    using Navigate_target_first by blast
next
  assume n: "\<exists>k<length fs. manhattan s (fs ! k) < grid_width s + grid_height s"
  with Navigate_target_cases [of s fs]
  show "Navigate_target s fs < length fs" by force
next
  assume n: "\<exists>k<length fs. manhattan s (fs ! k) < grid_width s + grid_height s"
  with Navigate_target_cases [of s fs]
  show "\<forall>k<length fs. manhattan s (fs ! Navigate_target s fs) \<le> manhattan s (fs ! k)"
    by force
next
  assume n: "\<exists>k<length fs. manhattan s (fs ! k) < grid_width s + grid_height s"
  with Navigate_target_cases [of s fs]
  show "\<forall>k<Navigate_target s fs.
          manhattan s (fs ! Navigate_target s fs) < manhattan s (fs ! k)"
    by force
next
  assume f: "\<forall>k<length fs. grid_width s + grid_height s \<le> manhattan s (fs ! k)"
  with Navigate_target_cases [of s fs]
  show "Navigate_target s fs = 0" by force
next
  assume "in_grid s (head_cell s) \<and> j < length fs \<and> in_grid s (pos (fs ! j))"
  then show "manhattan s (fs ! j) < grid_width s + grid_height s"
    using in_grid_near by blast
next
  assume "fs \<noteq> []"
  then show "Navigate_target s fs < length fs"
    by (rule Navigate_target_in_range)
next
  assume "fs \<noteq> []"
  then have "Navigate_target s fs < length fs"
    by (rule Navigate_target_in_range)
  then show "Navigate s fs =
        Inr (s\<lparr>direction :=
               avoid 4 s (static_cast_int (head_x s)) (static_cast_int (head_y s))
                 (candidate_heading (direction s) (pos (fs ! Navigate_target s fs))
                    (static_cast_int (head_x s)) (static_cast_int (head_y s)))\<rparr>)"
    by (simp add: Navigate_def Let_def)
qed

theorem Navigate_target_lowest_index_witness:
  "manhattan snake_curled (foods_tied ! 0) = 2 \<and>
   manhattan snake_curled (foods_tied ! 1) = 2 \<and>
   Navigate_target snake_curled foods_tied = 0 \<and>
   Navigate snake_curled foods_tied = Inr snake_curled \<and>
   in_grid snake_curled (head_cell snake_curled) \<and>
   in_grid snake_curled (pos (foods_three ! 1)) \<and>
   manhattan snake_curled (foods_three ! 0) = 30 \<and>
   manhattan snake_curled (foods_three ! 1) = 2 \<and>
   manhattan snake_curled (foods_three ! 2) = 2 \<and>
   Navigate_target snake_curled foods_three = 1"
proof -
  have m: "manhattan snake_curled (foods_tied ! 0) = 2"
          "manhattan snake_curled (foods_tied ! 1) = 2"
    by code_simp+
  have f: "foods_tied = [foods_tied ! 0, foods_tied ! 1]" "foods_tied \<noteq> []"
    by (simp_all add: foods_tied_def)
  from Navigate_target_lowest_index
         [of snake_curled "foods_tied ! 0" "foods_tied ! 1" 1 foods_tied] m f
  have t: "Navigate_target snake_curled foods_tied = 0"
    by simp
  have n: "Navigate snake_curled foods_tied = Inr snake_curled"
    by code_simp
  have g: "in_grid snake_curled (head_cell snake_curled)"
          "in_grid snake_curled (pos (foods_three ! 1))"
    by code_simp+
  have d: "manhattan snake_curled (foods_three ! 0) = 30"
          "manhattan snake_curled (foods_three ! 1) = 2"
          "manhattan snake_curled (foods_three ! 2) = 2"
    by code_simp+
  have l: "length foods_three = 3"
    by (simp add: foods_three_def)
  let ?t = "Navigate_target snake_curled foods_three"
  note T = Navigate_target_lowest_index [of snake_curled _ _ 1 foods_three]
  from T g l have near: "manhattan snake_curled (foods_three ! 1)
                          < grid_width snake_curled + grid_height snake_curled"
    by simp
  with l have ex: "\<exists>k<length foods_three. manhattan snake_curled (foods_three ! k)
                      < grid_width snake_curled + grid_height snake_curled"
    by (intro exI [of _ 1]) simp
  from T ex l have r: "?t < 3"
    and mn: "\<forall>k<3. manhattan snake_curled (foods_three ! ?t) \<le> manhattan snake_curled (foods_three ! k)"
    and fst: "\<forall>k<?t. manhattan snake_curled (foods_three ! ?t) < manhattan snake_curled (foods_three ! k)"
    by simp_all
  from mn have m1: "manhattan snake_curled (foods_three ! ?t) \<le> manhattan snake_curled (foods_three ! 1)"
    by simp
  from r consider "?t = 0" | "?t = 1" | "?t = 2" by linarith
  then have t3: "?t = 1"
  proof cases
    case 1
    with m1 d show ?thesis by simp
  next
    case 2
    then show ?thesis .
  next
    case 3
    with fst have "manhattan snake_curled (foods_three ! 2) < manhattan snake_curled (foods_three ! 1)"
      by simp
    with d show ?thesis by simp
  qed
  from m t n g d t3 show ?thesis by simp
qed

section \<open>Properties of the game\<close>

lemma PlaceFood_frame:
  "PlaceFood g index rng = Inr (g', rng') \<Longrightarrow>
     scores g' = scores g \<and> snake g' = snake g \<and> enemy g' = enemy g"
  by (induction g index rng rule: PlaceFood.induct)
     (auto split: if_splits list.splits sum.splits)

lemma PlaceFood_all_frame:
  "PlaceFood_all k i g rng = Inr (g', rng') \<Longrightarrow>
     scores g' = scores g \<and> snake g' = snake g \<and> enemy g' = enemy g"
proof (induction k arbitrary: i g rng)
  case 0
  then show ?case by simp
next
  case (Suc k)
  from Suc.prems obtain g1 rng1 where
    p: "PlaceFood g i rng = Inr (g1, rng1)" and r: "PlaceFood_all k (i + 1) g1 rng1 = Inr (g', rng')"
    by (auto split: sum.splits)
  from Suc.IH [OF r] PlaceFood_frame [OF p] show ?case by simp
qed

text \<open>
  Claim C10. Whenever the constructor \<^verbatim>\<open>Game::Game\<close> returns, the score counters are 0
  for the player and 1 for the enemy and \<^verbatim>\<open>GetScore()\<close> returns \<open>[0, 1]\<close>, which \<^verbatim>\<open>main\<close>
  reports as lost. The lead enters the comparison of \<^verbatim>\<open>main\<close>: with \<open>p\<close> points eaten by the
  player and \<open>q\<close> by the enemy the report is a win only for \<open>p > q + 1\<close>, a draw for
  \<open>p = q + 1\<close>, and a loss otherwise, so equal points lose. The constructor returns as
  soon as the first two drawn cells are free of both snakes.
\<close>

theorem Game_init_scores:
  "(Game_init gw gh rng = Inr (g, rng') \<longrightarrow>
      scores g = [0, 1] \<and> GetScore g = Inr [0, 1] \<and>
      main_report (scores g) = ''Sorry, you have lost.'') \<and>
   (\<forall>p q. main_report [0 + p, 1 + q] =
      (if p > 1 + q then ''Congratulation, you have won our god level AI snake!''
       else if p = 1 + q then ''You are as good as our AI snake!''
       else ''Sorry, you have lost.'')) \<and>
   main_report [0 + 3, 1 + 3] = ''Sorry, you have lost.'' \<and>
   main_report [0 + 4, 1 + 3] = ''You are as good as our AI snake!'' \<and>
   main_report [0 + 5, 1 + 3] = ''Congratulation, you have won our god level AI snake!'' \<and>
   (\<not> SnakeCell (Snake_init (int gw) (int gh) (int (gw div 2) - 5) (int (gh div 2)) (15 / 100)) x0 y0 \<and>
    \<not> SnakeCell (Snake_init (int gw) (int gh) (int (gw div 2) + 5) (int (gh div 2) + 5) (5 / 100)) x0 y0 \<and>
    \<not> SnakeCell (Snake_init (int gw) (int gh) (int (gw div 2) - 5) (int (gh div 2)) (15 / 100)) x1 y1 \<and>
    \<not> SnakeCell (Snake_init (int gw) (int gh) (int (gw div 2) + 5) (int (gh div 2) + 5) (5 / 100)) x1 y1
    \<longrightarrow> (\<exists>g1. Game_init gw gh (x0 # y0 # n0 # x1 # y1 # n1 # rest) = Inr (g1, rest) \<and>
              GetScore g1 = Inr [0, 1]))"
proof (intro conjI impI allI)
  assume a: "Game_init gw gh rng = Inr (g, rng')"
  then show "scores g = [0, 1]"
    by (auto simp: Game_init_def Let_def dest: PlaceFood_all_frame)
  then show "GetScore g = Inr [0, 1]" "main_report (scores g) = ''Sorry, you have lost.''"
    by (simp_all add: GetScore_def main_report_def)
next
  fix p q :: int
  show "main_report [0 + p, 1 + q] =
      (if p > 1 + q then ''Congratulation, you have won our god level AI snake!''
       else if p = 1 + q then ''You are as good as our AI snake!''
       else ''Sorry, you have lost.'')"
    by (simp add: main_report_def)
next
  show "main_report [0 + 3, 1 + 3] = ''Sorry, you have lost.''"
    by (simp add: main_report_def)
next
  show "main_report [0 + 4, 1 + 3] = ''You are as good as our AI snake!''"
    by (simp add: main_report_def)
next
  show "main_report [0 + 5, 1 + 3] = ''Congratulation, you have won our god level AI snake!''"
    by (simp add: main_report_def)
next
  assume free:
   "\<not> SnakeCell (Snake_init (int gw) (int gh) (int (gw div 2) - 5) (int (gh div 2)) (15 / 100)) x0 y0 \<and>
    \<not> SnakeCell (Snake_init (int gw) (int gh) (int (gw div 2) + 5) (int (gh div 2) + 5) (5 / 100)) x0 y0 \<and>
    \<not> SnakeCell (Snake_init (int gw) (int gh) (int (gw div 2) - 5) (int (gh div 2)) (15 / 100)) x1 y1 \<and>
    \<not> SnakeCell (Snake_init (int gw) (int gh) (int (gw div 2) + 5) (int (gh div 2) + 5) (5 / 100)) x1 y1"
  then have "\<exists>g1. Game_init gw gh (x0 # y0 # n0 # x1 # y1 # n1 # rest) = Inr (g1, rest)"
    by (simp add: Game_init_def Let_def target_food_number_def numeral_2_eq_2
          UpdateFood_def FoodManager_init_def)
  then obtain g1 where g1: "Game_init gw gh (x0 # y0 # n0 # x1 # y1 # n1 # rest) = Inr (g1, rest)"
    by blast
  then have "scores g1 = [0, 1]"
    by (auto simp: Game_init_def Let_def dest: PlaceFood_all_frame)
  then have "GetScore g1 = Inr [0, 1]"
    by (simp add: GetScore_def)
  with g1 show "\<exists>g1. Game_init gw gh (x0 # y0 # n0 # x1 # y1 # n1 # rest) = Inr (g1, rest) \<and>
              GetScore g1 = Inr [0, 1]"
    by blast
qed


theorem Game_init_scores_witness:
  "Game_init 32 32 [21, 25, 50, 3, 4, 20] = Inr (game_start, []) \<and>
   GetScore game_start = Inr [0, 1] \<and>
   \<not> SnakeCell (snake game_start) 21 25 \<and> \<not> SnakeCell (enemy game_start) 21 25 \<and>
   \<not> SnakeCell (snake game_start) 3 4 \<and> \<not> SnakeCell (enemy game_start) 3 4 \<and>
   (\<exists>g1. Game_init 32 32 [21, 25, 50, 3, 4, 20, 7] = Inr (g1, [7]) \<and> GetScore g1 = Inr [0, 1])"
proof -
  have e: "Game_init 32 32 [21, 25, 50, 3, 4, 20] = Inr (game_start, [])"
    by code_simp
  have c: "\<not> SnakeCell (snake game_start) 21 25" "\<not> SnakeCell (enemy game_start) 21 25"
          "\<not> SnakeCell (snake game_start) 3 4" "\<not> SnakeCell (enemy game_start) 3 4"
    by code_simp+
  have fr:
   "\<not> SnakeCell (Snake_init (int 32) (int 32) (int (32 div 2) - 5) (int (32 div 2)) (15 / 100)) 21 25 \<and>
    \<not> SnakeCell (Snake_init (int 32) (int 32) (int (32 div 2) + 5) (int (32 div 2) + 5) (5 / 100)) 21 25 \<and>
    \<not> SnakeCell (Snake_init (int 32) (int 32) (int (32 div 2) - 5) (int (32 div 2)) (15 / 100)) 3 4 \<and>
    \<not> SnakeCell (Snake_init (int 32) (int 32) (int (32 div 2) + 5) (int (32 div 2) + 5) (5 / 100)) 3 4"
    by code_simp
  note G = Game_init_scores [of 32 32 "[21, 25, 50, 3, 4, 20]" game_start "[]" 21 25 3 4 50 20 "[7]"]
  from G e have s: "GetScore game_start = Inr [0, 1]"
    by blast
  from G fr have "\<exists>g1. Game_init 32 32 [21, 25, 50, 3, 4, 20, 7] = Inr (g1, [7]) \<and>
                      GetScore g1 = Inr [0, 1]"
    by blast
  with e s c show ?thesis by blast
qed

lemma Navigate_direction_only:
  "Navigate s fs = Inr s' \<Longrightarrow> s' = s\<lparr>direction := direction s'\<rparr>"
  by (auto simp: Navigate_def Let_def split: if_splits)

lemma HandleInput_direction_only:
  "HandleInput inp running s = (running', s') \<Longrightarrow> s' = s\<lparr>direction := direction s'\<rparr>"
  by (cases inp) (auto simp: HandleInput_def)

lemma Navigate_returns:
  "fs \<noteq> [] \<Longrightarrow> \<exists>s'. Navigate s fs = Inr s'"
  using Navigate_target_in_range [of fs s]
  by (simp add: Navigate_def Let_def)

text \<open>
  Claim C5, as amended. If either snake is not alive, \<^verbatim>\<open>Game::Update\<close> changes nothing:
  both snakes, the foods and the scores (and the random source) are as before. A whole
  round of the loop of \<^verbatim>\<open>Game::Run\<close> that returns leaves everything unchanged but the two
  headings, which the input handler (player) and \<^verbatim>\<open>Navigate\<close> (enemy) may still set, and
  it returns whenever the food snapshot is not empty.
\<close>

theorem dead_snake_freezes_Update:
  "\<not> alive (snake g) \<or> \<not> alive (enemy g) \<Longrightarrow>
     Game_Update g rng = Inr (g, rng) \<and>
     (Run_tick inp running g rng = Inr (running', g', rng') \<longrightarrow>
        rng' = rng \<and>
        g' = g\<lparr>snake := (snake g)\<lparr>direction := direction (snake g')\<rparr>,
               enemy := (enemy g)\<lparr>direction := direction (enemy g')\<rparr>\<rparr>) \<and>
     (foods g \<noteq> [] \<longrightarrow> (\<exists>r1 g1. Run_tick inp running g rng = Inr (r1, g1, rng)))"
proof -
  assume dead: "\<not> alive (snake g) \<or> \<not> alive (enemy g)"
  obtain r1 s1 where h: "HandleInput inp running (snake g) = (r1, s1)"
    by (cases "HandleInput inp running (snake g)")
  from HandleInput_direction_only [OF h] have s1: "s1 = (snake g)\<lparr>direction := direction s1\<rparr>" .
  have upd: "Game_Update g rng = Inr (g, rng)"
    using dead by (simp add: Game_Update_def)
  have step: "\<And>e1. Navigate (enemy g) (foods g) = Inr e1 \<Longrightarrow>
                Run_tick inp running g rng = Inr (r1, g\<lparr>snake := s1, enemy := e1\<rparr>, rng)"
  proof -
    fix e1 assume n: "Navigate (enemy g) (foods g) = Inr e1"
    from Navigate_direction_only [OF n] have e1: "e1 = (enemy g)\<lparr>direction := direction e1\<rparr>" .
    from dead s1 e1 have "\<not> alive s1 \<or> \<not> alive e1"
      by (metis Snake.select_convs(4) Snake.surjective Snake.update_convs(1))
    then have "Game_Update (g\<lparr>snake := s1, enemy := e1\<rparr>) rng = Inr (g\<lparr>snake := s1, enemy := e1\<rparr>, rng)"
      by (simp add: Game_Update_def)
    with h n show "Run_tick inp running g rng = Inr (r1, g\<lparr>snake := s1, enemy := e1\<rparr>, rng)"
      by (simp add: Run_tick_def GetFoods_def)
  qed
  have tick: "Run_tick inp running g rng = Inr (running', g', rng') \<longrightarrow>
        rng' = rng \<and>
        g' = g\<lparr>snake := (snake g)\<lparr>direction := direction (snake g')\<rparr>,
               enemy := (enemy g)\<lparr>direction := direction (enemy g')\<rparr>\<rparr>"
  proof
    assume t: "Run_tick inp running g rng = Inr (running', g', rng')"
    with h obtain e1 where n: "Navigate (enemy g) (foods g) = Inr e1"
      by (auto simp: Run_tick_def GetFoods_def split: sum.splits)
    from step [OF n] t have eq: "rng' = rng" "g' = g\<lparr>snake := s1, enemy := e1\<rparr>"
      by simp_all
    from Navigate_direction_only [OF n] have e1: "e1 = (enemy g)\<lparr>direction := direction e1\<rparr>" .
    from eq(2) have "snake g' = s1" "enemy g' = e1" by simp_all
    with s1 e1 eq show "rng' = rng \<and>
        g' = g\<lparr>snake := (snake g)\<lparr>direction := direction (snake g')\<rparr>,
               enemy := (enemy g)\<lparr>direction := direction (enemy g')\<rparr>\<rparr>"
      by simp
  qed
  have ret: "foods g \<noteq> [] \<longrightarrow> (\<exists>r1 g1. Run_tick inp running g rng = Inr (r1, g1, rng))"
  proof
    assume "foods g \<noteq> []"
    from Navigate_returns [OF this] obtain e1 where "Navigate (enemy g) (foods g) = Inr e1"
      by blast
    from step [OF this] show "\<exists>r1 g1. Run_tick inp running g rng = Inr (r1, g1, rng)"
      by blast
  qed
  from upd tick ret show ?thesis by blast
qed

theorem dead_snake_freezes_Update_witness:
  "\<not> alive (snake game_dead) \<and>
   Game_Update game_dead [7, 7, 7] = Inr (game_dead, [7, 7, 7]) \<and>
   foods game_dead \<noteq> [] \<and>
   (\<exists>r1 g1. Run_tick (Turn kLeft) True game_dead [7, 7, 7] = Inr (r1, g1, [7, 7, 7]))"
proof -
  have d: "\<not> alive (snake game_dead)" and f: "foods game_dead \<noteq> []"
    by (simp_all add: game_dead_def game_start_def)
  from d have "\<not> alive (snake game_dead) \<or> \<not> alive (enemy game_dead)" ..
  from dead_snake_freezes_Update [OF this, of "[7, 7, 7]" "Turn kLeft" True] d f
  show ?thesis by blast
qed

text \<open>
  Claim C5 as stated fails for the headings: with the player snake dead and a food
  below the enemy, which heads up, one round of the loop of \<^verbatim>\<open>Game::Run\<close> turns the
  enemy to the right.
\<close>

theorem dead_snake_heading_counterexample:
  "\<not> alive (snake game_dead) \<and>
   direction (enemy game_dead) = kUp \<and>
   Run_tick NoInput True game_dead [] =
     Inr (True, game_dead\<lparr>enemy := (enemy game_dead)\<lparr>direction := kRight\<rparr>\<rparr>, []) \<and>
   direction (enemy (game_dead\<lparr>enemy := (enemy game_dead)\<lparr>direction := kRight\<rparr>\<rparr>)) \<noteq>
     direction (enemy game_dead)"
  by code_simp

text \<open>
  Claim C1 fails on the code. In \<open>game_boost\<close> both snakes are alive and the player's
  speed is \<open>MAX_SPEED\<close>; one \<^verbatim>\<open>Game::Update\<close> takes its head onto the Boost food, whose
  branch adds \<open>0.05\<close> with no test against \<^verbatim>\<open>MAX_SPEED\<close>: the speed is \<open>0.35\<close>.
\<close>

theorem Boost_exceeds_MAX_SPEED:
  "speed (snake game_boost) \<le> MAX_SPEED \<and>
   alive (snake game_boost) \<and> alive (enemy game_boost) \<and>
   Game_Update game_boost [5, 5, 50] = Inr (game_boosted, []) \<and>
   speed (snake game_boosted) = 7 / 20 \<and>
   MAX_SPEED < speed (snake game_boosted)"
  by code_simp

theorem Boost_exceeds_MAX_SPEED_witness:
  "\<not> speed (snake game_boosted) \<le> MAX_SPEED"
  using Boost_exceeds_MAX_SPEED by simp

end
